theory Spec2Isabelle
  imports Complex_Main
begin

section \<open>Data model of \<open>paxos_simulation.py\<close>\<close>

text \<open>
  A \<open>ProposalID\<close> is the named tuple \<open>(number, uid)\<close> of the Paxos library; Python
  compares such tuples lexicographically, strings by code point.
\<close>

type_synonym ProposalID = "int \<times> string"

definition str_gt :: "string \<Rightarrow> string \<Rightarrow> bool" where
  "str_gt a b = lexordp (<) (map (of_char :: char \<Rightarrow> nat) b) (map of_char a)"

fun pid_gt :: "ProposalID \<Rightarrow> ProposalID \<Rightarrow> bool" where
  "pid_gt (n1, u1) (n2, u2) = (n1 > n2 \<or> (n1 = n2 \<and> str_gt u1 u2))"

text \<open>Class \<open>NetworkMessage\<close>.\<close>

record NetworkMessage =
  msg_type :: string
  sender :: string
  receiver :: string
  proposal_id :: ProposalID
  previous_id :: "ProposalID option"
  accepted_value :: "string option"
  dropped :: bool

definition mk_message ::
  "string \<Rightarrow> string \<Rightarrow> string \<Rightarrow> ProposalID \<Rightarrow> ProposalID option \<Rightarrow> string option
     \<Rightarrow> NetworkMessage" where
  "mk_message ty s r pid prev v =
     \<lparr>msg_type = ty, sender = s, receiver = r, proposal_id = pid, previous_id = prev,
      accepted_value = v, dropped = False\<rparr>"

section \<open>The learner\<close>

text \<open>
  One entry of \<open>PaxosLearner.pending_accepted\<close>: the dictionary with the keys
  \<open>count\<close>, \<open>value\<close> and \<open>received\<close>.
\<close>

record accepted_tally =
  tally_count :: int
  tally_value :: "string option"
  tally_received :: "string set"

text \<open>
  \<open>PaxosLearner\<close>. The fields of the library base class \<open>Learner\<close> are kept as one
  opaque component \<open>learner_base\<close>; the calls of \<open>on_resolution\<close> made by
  \<open>handle_message\<close> are recorded, in order, in \<open>resolutions\<close>.
\<close>

record 'b PaxosLearner =
  learner_id :: string
  learner_running :: bool
  learner_quorum_size :: int
  pending_accepted :: "ProposalID \<rightharpoonup> accepted_tally"
  learner_base :: 'b
  resolutions :: "(ProposalID \<times> string option) list"

text \<open>
  \<open>PaxosLearner.handle_message\<close>. The method \<open>recv_accepted\<close> of the base class is
  a parameter acting on the base component.
\<close>

definition learner_handle_message ::
  "(string \<Rightarrow> ProposalID \<Rightarrow> string option \<Rightarrow> 'b \<Rightarrow> 'b) \<Rightarrow> NetworkMessage
     \<Rightarrow> 'b PaxosLearner \<Rightarrow> 'b PaxosLearner" where
  "learner_handle_message recv_accepted msg l =
     (if msg_type msg = ''accepted'' then
        let t0 = (case pending_accepted l (proposal_id msg) of
                    None \<Rightarrow> \<lparr>tally_count = 0, tally_value = accepted_value msg,
                              tally_received = {}\<rparr>
                  | Some t \<Rightarrow> t);
            t1 = t0\<lparr>tally_count := tally_count t0 + 1\<rparr>;
            t2 = t1\<lparr>tally_received := insert (sender msg) (tally_received t1)\<rparr>;
            l1 = l\<lparr>pending_accepted := (pending_accepted l)(proposal_id msg \<mapsto> t2),
                   learner_base := recv_accepted (sender msg) (proposal_id msg)
                                     (accepted_value msg) (learner_base l)\<rparr>
        in if tally_count t2 \<ge> learner_quorum_size l1 then
             l1\<lparr>resolutions := resolutions l1 @ [(proposal_id msg, accepted_value msg)],
                pending_accepted := (pending_accepted l1)(proposal_id msg := None)\<rparr>
           else l1
      else l)"

definition new_learner :: "string \<Rightarrow> int \<Rightarrow> 'b \<Rightarrow> 'b PaxosLearner" where
  "new_learner nid q b =
     \<lparr>learner_id = nid, learner_running = True, learner_quorum_size = q,
      pending_accepted = Map.empty, learner_base = b, resolutions = []\<rparr>"

section \<open>The proposer\<close>

text \<open>
  The network's node table \<open>NetworkSimulator.nodes\<close>: a dictionary from node id to
  node object, in insertion order. Of a node the network and the proposer read the class
  (\<open>isinstance\<close>) and the \<open>running\<close> flag.
\<close>

datatype role = Proposer_Role | Acceptor_Role | Learner_Role

record node_info =
  node_role :: role
  node_running :: bool

type_synonym node_table = "(string \<times> node_info) list"

definition acceptor_ids :: "node_table \<Rightarrow> string list" where
  "acceptor_ids nodes = map fst (filter (\<lambda>(nid, n). node_role n = Acceptor_Role) nodes)"

text \<open>
  The entries of \<open>pending_promises\<close> and \<open>pending_accepts\<close>. In a promise entry
  \<open>value\<close> is \<open>None\<close> or the pair \<open>(previous_id, accepted_value)\<close> of the best
  promise so far; in an accept entry it is the value being proposed.
\<close>

record promise_entry =
  pr_count :: int
  pr_start_time :: real
  pr_received :: "string set"
  pr_value :: "(ProposalID option \<times> string) option"
  pr_retry_count :: int

record accept_entry =
  ac_count :: int
  ac_start_time :: real
  ac_received :: "string set"
  ac_value :: "string option"
  ac_retry_count :: int

datatype phase = Prepare | Accept

datatype timer = Promise_Timer ProposalID | Accept_Timer ProposalID

text \<open>
  \<open>PaxosProposer\<close>. \<open>current_phase\<close> is \<open>None\<close>, \<open>'prepare'\<close> or \<open>'accept'\<close>.
  \<open>promises_rcvd\<close>, \<open>last_accepted_id\<close> and \<open>proposed_value\<close> are the fields of
  the library base class that this file writes. The effects of a method are kept in
  the state: \<open>outbox\<close> lists the messages handed to \<open>network.send_message\<close>, in order,
  and \<open>timers\<close> the \<open>threading.Timer\<close> objects started, each with its delay.
  \<open>time.time()\<close> is the parameter \<open>now\<close> of every method that reads the clock.
\<close>

record PaxosProposer =
  node_id :: string
  running :: bool
  quorum_size :: int
  next_proposal_number :: int
  pending_promises :: "ProposalID \<rightharpoonup> promise_entry"
  timeout :: real
  pending_accepts :: "ProposalID \<rightharpoonup> accept_entry"
  current_phase :: "phase option"
  proposal_value :: "string option"
  message_queue :: "NetworkMessage list"
  processed_messages :: "string set"
  quorum_reached :: bool
  current_id :: "ProposalID option"
  consensus_time :: "real option"
  start_time :: "real option"
  rounds :: int
  promises_rcvd :: "string set"
  last_accepted_id :: "ProposalID option"
  proposed_value :: "string option"
  outbox :: "NetworkMessage list"
  timers :: "(real \<times> timer) list"

text \<open>\<open>PaxosProposer.__init__\<close>; the field \<open>proposal_id\<close> is \<open>current_id\<close> here.\<close>

definition new_proposer :: "string \<Rightarrow> int \<Rightarrow> PaxosProposer" where
  "new_proposer nid q =
     \<lparr>node_id = nid, running = True, quorum_size = q, next_proposal_number = 1,
      pending_promises = Map.empty, timeout = 4, pending_accepts = Map.empty,
      current_phase = None, proposal_value = None, message_queue = [],
      processed_messages = {}, quorum_reached = False, current_id = None,
      consensus_time = None, start_time = None, rounds = 0, promises_rcvd = {},
      last_accepted_id = None, proposed_value = None, outbox = [], timers = []\<rparr>"

definition set_proposal :: "string \<Rightarrow> PaxosProposer \<Rightarrow> PaxosProposer" where
  "set_proposal v p = p\<lparr>proposal_value := Some v\<rparr>"

text \<open>\<open>PaxosProposer.prepare\<close>.\<close>

definition prepare :: "node_table \<Rightarrow> real \<Rightarrow> PaxosProposer \<Rightarrow> PaxosProposer" where
  "prepare nodes now p =
     (if \<not> running p then p
      else
        let n = next_proposal_number p + 1;
            pid = (n, node_id p)
        in p\<lparr>rounds := rounds p + 1,
             current_phase := Some Prepare,
             quorum_reached := False,
             next_proposal_number := n,
             current_id := Some pid,
             start_time := (if start_time p = None then Some now else start_time p),
             promises_rcvd := {},
             last_accepted_id := None,
             outbox := outbox p @
               map (\<lambda>a. mk_message ''prepare'' (node_id p) a pid None None)
                 (acceptor_ids nodes),
             pending_promises := (pending_promises p)(pid \<mapsto>
               \<lparr>pr_count = 0, pr_start_time = now, pr_received = {}, pr_value = None,
                pr_retry_count = 0\<rparr>),
             timers := timers p @ [(timeout p, Promise_Timer pid)]\<rparr>)"

text \<open>\<open>PaxosProposer._check_promise_timeout\<close>: the callback of a promise timer.\<close>

definition check_promise_timeout ::
  "node_table \<Rightarrow> real \<Rightarrow> ProposalID \<Rightarrow> PaxosProposer \<Rightarrow> PaxosProposer" where
  "check_promise_timeout nodes now pid p =
     (case pending_promises p pid of
        None \<Rightarrow> p
      | Some promises \<Rightarrow>
          if pr_count promises < quorum_size p then
            let promises' = promises\<lparr>pr_retry_count := pr_retry_count promises + 1\<rparr>;
                p1 = p\<lparr>pending_promises := (pending_promises p)(pid \<mapsto> promises')\<rparr>
            in if pr_retry_count promises' < 3 then
                 prepare nodes now
                   (p1\<lparr>next_proposal_number := next_proposal_number p1 + 1,
                       current_phase := None\<rparr>)
               else
                 p1\<lparr>pending_promises := (pending_promises p1)(pid := None),
                    current_phase := None\<rparr>
          else p)"

text \<open>\<open>PaxosProposer.send_accept\<close>.\<close>

definition send_accept ::
  "node_table \<Rightarrow> real \<Rightarrow> ProposalID \<Rightarrow> string option \<Rightarrow> PaxosProposer \<Rightarrow> PaxosProposer" where
  "send_accept nodes now pid v p =
     (if \<not> running p then p
      else if \<not> quorum_reached p then p
      else
        p\<lparr>current_phase := Some Accept,
          outbox := outbox p @
            map (\<lambda>a. mk_message ''accept'' (node_id p) a pid None v) (acceptor_ids nodes),
          pending_accepts := (pending_accepts p)(pid \<mapsto>
            \<lparr>ac_count = 0, ac_start_time = now, ac_received = {}, ac_value = v,
             ac_retry_count = 0\<rparr>),
          timers := timers p @ [(timeout p, Accept_Timer pid)]\<rparr>)"

text \<open>\<open>PaxosProposer._check_accept_timeout\<close>: the callback of an accept timer.\<close>

definition check_accept_timeout ::
  "node_table \<Rightarrow> real \<Rightarrow> ProposalID \<Rightarrow> PaxosProposer \<Rightarrow> PaxosProposer" where
  "check_accept_timeout nodes now pid p =
     (case pending_accepts p pid of
        None \<Rightarrow> p
      | Some accepts \<Rightarrow>
          if ac_count accepts < quorum_size p then
            let accepts' = accepts\<lparr>ac_retry_count := ac_retry_count accepts + 1\<rparr>;
                p1 = p\<lparr>pending_accepts := (pending_accepts p)(pid \<mapsto> accepts')\<rparr>
            in if ac_retry_count accepts' < 3 then
                 send_accept nodes now pid (ac_value accepts') (p1\<lparr>rounds := rounds p1 + 1\<rparr>)
               else
                 prepare nodes now
                   (p1\<lparr>current_phase := None,
                       next_proposal_number := next_proposal_number p1 + 1\<rparr>)
          else p)"

text \<open>
  \<open>PaxosProposer.handle_promise\<close>. Python 3 raises \<open>TypeError\<close> when \<open>None\<close> is
  compared with a \<open>ProposalID\<close>; the comparison that tracks the highest accepted value
  stands outside the \<open>try\<close> block, so the exception leaves the method after \<open>count\<close>
  and \<open>received\<close> have been updated. The result is the state together with the exception
  that left the method, if any.
\<close>

datatype error = TypeError

definition handle_promise ::
  "node_table \<Rightarrow> real \<Rightarrow> NetworkMessage \<Rightarrow> PaxosProposer \<Rightarrow> error option \<times> PaxosProposer" where
  "handle_promise nodes now msg p =
     (case pending_promises p (proposal_id msg) of
        None \<Rightarrow> (None, p)
      | Some promises \<Rightarrow>
          if current_phase p \<noteq> Some Prepare then (None, p)
          else if sender msg \<in> pr_received promises then (None, p)
          else
            let pr1 = promises\<lparr>pr_count := pr_count promises + 1,
                               pr_received := insert (sender msg) (pr_received promises)\<rparr>;
                p1 = p\<lparr>pending_promises := (pending_promises p)(proposal_id msg \<mapsto> pr1)\<rparr>
            in
              if accepted_value msg \<noteq> None \<and> pr_value pr1 \<noteq> None \<and>
                 (previous_id msg = None \<or> fst (the (pr_value pr1)) = None)
              then (Some TypeError, p1)
              else
                let pr2 = (case accepted_value msg of
                             None \<Rightarrow> pr1
                           | Some av \<Rightarrow>
                               (case pr_value pr1 of
                                  None \<Rightarrow> pr1\<lparr>pr_value := Some (previous_id msg, av)\<rparr>
                                | Some (best, bv) \<Rightarrow>
                                    if pid_gt (the (previous_id msg)) (the best)
                                    then pr1\<lparr>pr_value := Some (previous_id msg, av)\<rparr>
                                    else pr1));
                    p2 = p1\<lparr>pending_promises :=
                              (pending_promises p1)(proposal_id msg \<mapsto> pr2)\<rparr>;
                    p3 = (case previous_id msg of
                            None \<Rightarrow> p2
                          | Some prev \<Rightarrow>
                              if (case last_accepted_id p2 of
                                    None \<Rightarrow> True | Some la \<Rightarrow> pid_gt prev la)
                              then
                                (let p' = p2\<lparr>last_accepted_id := Some prev\<rparr>
                                 in case accepted_value msg of
                                      None \<Rightarrow> p'
                                    | Some av \<Rightarrow> p'\<lparr>proposed_value := Some av\<rparr>)
                              else p2);
                    p4 = p3\<lparr>promises_rcvd := insert (sender msg) (promises_rcvd p3)\<rparr>
                in
                  if int (card (promises_rcvd p4)) \<ge> quorum_size p4 \<and> \<not> quorum_reached p4
                  then
                    let p5 = p4\<lparr>quorum_reached := True\<rparr>;
                        v = (case pr_value pr2 of
                               Some (best, bv) \<Rightarrow> Some bv
                             | None \<Rightarrow> proposal_value p5);
                        p6 = send_accept nodes now (proposal_id msg) v p5
                    in (None, p6\<lparr>pending_promises :=
                                  (pending_promises p6)(proposal_id msg := None)\<rparr>)
                  else (None, p4))"

text \<open>\<open>PaxosProposer.handle_accepted\<close>.\<close>

definition handle_accepted :: "real \<Rightarrow> NetworkMessage \<Rightarrow> PaxosProposer \<Rightarrow> PaxosProposer" where
  "handle_accepted now msg p =
     (case pending_accepts p (proposal_id msg) of
        None \<Rightarrow> p
      | Some accepts \<Rightarrow>
          if current_phase p \<noteq> Some Accept then p
          else if sender msg \<in> ac_received accepts then p
          else
            let ac1 = accepts\<lparr>ac_count := ac_count accepts + 1,
                              ac_received := insert (sender msg) (ac_received accepts)\<rparr>;
                p1 = p\<lparr>pending_accepts := (pending_accepts p)(proposal_id msg \<mapsto> ac1)\<rparr>
            in if ac_count ac1 \<ge> quorum_size p1 then
                 (let p2 = (if consensus_time p1 = None
                            then p1\<lparr>consensus_time := Some now\<rparr> else p1)
                  in p2\<lparr>pending_accepts := (pending_accepts p2)(proposal_id msg := None),
                        current_phase := None\<rparr>)
               else p1)"

text \<open>
  \<open>PaxosProposer.handle_message\<close> puts a message on the queue. One turn of the loop of
  \<open>_process_messages\<close> with the message \<open>msg\<close> taken from the queue is
  \<open>process_message\<close>: the identifier is the f-string
  \<open>sender-msg_type-proposal_id\<close>, where the text of a \<open>ProposalID\<close> is that of the
  library's named tuple, the parameter \<open>render\<close>. An exception of a handler is
  caught and logged by the loop.
\<close>

definition proposer_handle_message :: "NetworkMessage \<Rightarrow> PaxosProposer \<Rightarrow> PaxosProposer" where
  "proposer_handle_message msg p =
     (if \<not> running p then p else p\<lparr>message_queue := message_queue p @ [msg]\<rparr>)"

definition processed_id :: "(ProposalID \<Rightarrow> string) \<Rightarrow> NetworkMessage \<Rightarrow> string" where
  "processed_id render msg =
     sender msg @ ''-'' @ msg_type msg @ ''-'' @ render (proposal_id msg)"

definition process_message ::
  "(ProposalID \<Rightarrow> string) \<Rightarrow> node_table \<Rightarrow> real \<Rightarrow> NetworkMessage \<Rightarrow> PaxosProposer
     \<Rightarrow> PaxosProposer" where
  "process_message render nodes now msg p =
     (if processed_id render msg \<in> processed_messages p then p
      else
        let p1 = p\<lparr>processed_messages :=
                    insert (processed_id render msg) (processed_messages p)\<rparr>
        in if msg_type msg = ''promise'' then snd (handle_promise nodes now msg p1)
           else if msg_type msg = ''accepted'' then handle_accepted now msg p1
           else p1)"

text \<open>
  What happens to a proposer over its lifetime: the loop of \<open>_process_messages\<close> takes
  a message from the queue (while \<open>running\<close>), a timer fires, a caller invokes
  \<open>prepare\<close>, \<open>send_accept\<close> or \<open>set_proposal\<close>, the node is crashed
  (\<open>running = False\<close>) or started again. Each carries the clock reading of its moment.
\<close>

datatype event =
    Ev_Message real NetworkMessage
  | Ev_Promise_Timeout real ProposalID
  | Ev_Accept_Timeout real ProposalID
  | Ev_Prepare real
  | Ev_Send_Accept real ProposalID "string option"
  | Ev_Set_Proposal string
  | Ev_Crash
  | Ev_Start

fun step :: "(ProposalID \<Rightarrow> string) \<Rightarrow> node_table \<Rightarrow> event \<Rightarrow> PaxosProposer \<Rightarrow> PaxosProposer"
  where
  "step render nodes (Ev_Message now msg) p =
     (if running p then process_message render nodes now msg p else p)"
| "step render nodes (Ev_Promise_Timeout now pid) p = check_promise_timeout nodes now pid p"
| "step render nodes (Ev_Accept_Timeout now pid) p = check_accept_timeout nodes now pid p"
| "step render nodes (Ev_Prepare now) p = prepare nodes now p"
| "step render nodes (Ev_Send_Accept now pid v) p = send_accept nodes now pid v p"
| "step render nodes (Ev_Set_Proposal v) p = set_proposal v p"
| "step render nodes Ev_Crash p = p\<lparr>running := False\<rparr>"
| "step render nodes Ev_Start p = p\<lparr>running := True\<rparr>"

fun run_events ::
  "(ProposalID \<Rightarrow> string) \<Rightarrow> node_table \<Rightarrow> event list \<Rightarrow> PaxosProposer \<Rightarrow> PaxosProposer" where
  "run_events render nodes [] p = p"
| "run_events render nodes (e # es) p = run_events render nodes es (step render nodes e p)"

section \<open>The network\<close>

text \<open>
  Decimal text of a number, as \<open>str\<close> prints the retry count inside a message token.
  The retry count starts at 0 and is only counted up, so it is a natural number here.
\<close>

fun digits :: "nat \<Rightarrow> string" where
  "digits n =
     (if n < 10 then [char_of (48 + n)] else digits (n div 10) @ [char_of (48 + n mod 10)])"

text \<open>
  What the network starts: a \<open>threading.Timer\<close> that will call \<open>_retry_message\<close>
  after a delay, a thread that runs \<open>_deliver_message\<close> at once, or a thread that runs
  \<open>_delayed_delivery\<close>.
\<close>

datatype net_action =
    Retry_Timer real string string string NetworkMessage nat
  | Deliver_Thread NetworkMessage string
  | Delayed_Delivery NetworkMessage string real

text \<open>
  \<open>NetworkSimulator\<close>, without the optional visualizer (the driver passes none).
  \<open>scheduled\<close> lists the timers and threads started, \<open>invoked\<close> the calls of
  \<open>handle_message\<close> on a node (receiver and message), both in order. The draws of
  \<open>random.random()\<close> and \<open>random.uniform\<close> are the parameters \<open>r\<close> and \<open>d\<close>.
\<close>

record NetworkSimulator =
  nodes :: node_table
  delay_range :: "real \<times> real"
  failure_rate :: real
  net_running :: bool
  message_count :: int
  dropped_messages :: int
  max_retries :: nat
  active_messages :: "string set"
  total_retries :: int
  scheduled :: "net_action list"
  invoked :: "(string \<times> NetworkMessage) list"

definition new_network :: "real \<times> real \<Rightarrow> real \<Rightarrow> NetworkSimulator" where
  "new_network dr fr =
     \<lparr>nodes = [], delay_range = dr, failure_rate = fr, net_running = True,
      message_count = 0, dropped_messages = 0, max_retries = 3, active_messages = {},
      total_retries = 0, scheduled = [], invoked = []\<rparr>"

text \<open>\<open>register_node\<close>: \<open>self.nodes[node.node_id] = node\<close>.\<close>

fun dict_set :: "'k \<Rightarrow> 'v \<Rightarrow> ('k \<times> 'v) list \<Rightarrow> ('k \<times> 'v) list" where
  "dict_set k v [] = [(k, v)]"
| "dict_set k v ((k', v') # kvs) =
     (if k = k' then (k, v) # kvs else (k', v') # dict_set k v kvs)"

definition register_node :: "string \<Rightarrow> node_info \<Rightarrow> NetworkSimulator \<Rightarrow> NetworkSimulator" where
  "register_node nid n net = net\<lparr>nodes := dict_set nid n (nodes net)\<rparr>"

definition message_token :: "(ProposalID \<Rightarrow> string) \<Rightarrow> NetworkMessage \<Rightarrow> nat \<Rightarrow> string" where
  "message_token render msg retry_count =
     sender msg @ ''-'' @ receiver msg @ ''-'' @ msg_type msg @ ''-'' @
     render (proposal_id msg) @ ''-'' @ digits retry_count"

text \<open>\<open>NetworkSimulator.send_message\<close>.\<close>

definition send_message ::
  "(ProposalID \<Rightarrow> string) \<Rightarrow> real \<Rightarrow> real \<Rightarrow> NetworkMessage \<Rightarrow> nat \<Rightarrow> NetworkSimulator
     \<Rightarrow> NetworkSimulator" where
  "send_message render r d msg retry_count net =
     (if \<not> net_running net then net
      else
        let msg_id = message_token render msg retry_count
        in if msg_id \<in> active_messages net then net
           else
             let net1 = net\<lparr>active_messages := insert msg_id (active_messages net),
                           message_count := message_count net + 1\<rparr>
             in if failure_rate net1 > 0 \<and> r < failure_rate net1 then
                  let net2 = net1\<lparr>dropped_messages := dropped_messages net1 + 1\<rparr>;
                      msg' = msg\<lparr>dropped := True\<rparr>
                  in if failure_rate net2 \<ge> 1 then
                       net2\<lparr>active_messages := active_messages net2 - {msg_id}\<rparr>
                     else if retry_count < max_retries net2 then
                       net2\<lparr>scheduled := scheduled net2 @
                              [Retry_Timer (min ((1 / 2) * 2 ^ retry_count) 5) msg_id
                                 (sender msg) (receiver msg) msg' (retry_count + 1)]\<rparr>
                     else net2\<lparr>active_messages := active_messages net2 - {msg_id}\<rparr>
                else
                  let msg' = msg\<lparr>dropped := False\<rparr>
                  in if d = 0 then
                       net1\<lparr>scheduled := scheduled net1 @ [Deliver_Thread msg' msg_id]\<rparr>
                     else
                       net1\<lparr>scheduled := scheduled net1 @ [Delayed_Delivery msg' msg_id d]\<rparr>)"

text \<open>
  \<open>NetworkSimulator._retry_message\<close>, the callback of a retry timer. The call of the
  node's handler is recorded, not run.
\<close>

definition deliver_to :: "string \<Rightarrow> NetworkMessage \<Rightarrow> NetworkSimulator \<Rightarrow> NetworkSimulator" where
  "deliver_to to_node msg net =
     (case map_of (nodes net) to_node of
        None \<Rightarrow> net
      | Some target_node \<Rightarrow>
          if node_running target_node then net\<lparr>invoked := invoked net @ [(to_node, msg)]\<rparr>
          else net)"

definition retry_message ::
  "real \<Rightarrow> string \<Rightarrow> string \<Rightarrow> string \<Rightarrow> NetworkMessage \<Rightarrow> nat \<Rightarrow> NetworkSimulator
     \<Rightarrow> NetworkSimulator" where
  "retry_message r msg_id from_node to_node message attempt net =
     (if \<not> net_running net \<or> attempt \<ge> 3 then
        net\<lparr>active_messages := active_messages net - {msg_id}\<rparr>
      else if msg_id \<notin> active_messages net then net
      else if r < failure_rate net then
        net\<lparr>total_retries := total_retries net + 1,
            dropped_messages := dropped_messages net + 1,
            scheduled := scheduled net @
              [Retry_Timer (min ((1 / 10) * 2 ^ attempt) 1) msg_id from_node to_node message
                 (attempt + 1)]\<rparr>
      else
        (let net1 = deliver_to to_node message net
         in net1\<lparr>active_messages := active_messages net1 - {msg_id}\<rparr>))"

text \<open>\<open>NetworkSimulator._deliver_message\<close>, and \<open>stop\<close>.\<close>

definition deliver_message :: "NetworkMessage \<Rightarrow> string \<Rightarrow> NetworkSimulator \<Rightarrow> NetworkSimulator" where
  "deliver_message msg msg_id net =
     (let net1 = deliver_to (receiver msg) msg net
      in net1\<lparr>active_messages := active_messages net1 - {msg_id}\<rparr>)"

definition stop :: "NetworkSimulator \<Rightarrow> NetworkSimulator" where
  "stop net = net\<lparr>net_running := False, active_messages := {}\<rparr>"

text \<open>
  Running what the network has started: a retry timer calls \<open>retry_message\<close> with the
  next draw, a delivery thread calls \<open>deliver_message\<close>.
\<close>

fun run_action :: "real \<Rightarrow> net_action \<Rightarrow> NetworkSimulator \<Rightarrow> NetworkSimulator" where
  "run_action r (Retry_Timer delay msg_id f t m a) net = retry_message r msg_id f t m a net"
| "run_action r (Deliver_Thread m msg_id) net = deliver_message m msg_id net"
| "run_action r (Delayed_Delivery m msg_id d) net = deliver_message m msg_id net"

section \<open>The driver\<close>

text \<open>
  \<open>simulate_paxos\<close> polls the first proposer every 0.1 s. A poll is the clock reading
  and the proposer as the loop condition sees them; the loop goes on while no consensus
  time is set and less than \<open>timeout_limit = 30.0\<close> seconds have passed since
  \<open>start_time\<close>. \<open>wait_loop\<close> gives the proposer at the first poll that ends the loop,
  \<open>None\<close> while no poll has ended it.
\<close>

definition timeout_limit :: real where
  "timeout_limit = 30"

definition wait_continues :: "real \<Rightarrow> real \<Rightarrow> PaxosProposer \<Rightarrow> bool" where
  "wait_continues start now p = (consensus_time p = None \<and> now - start < timeout_limit)"

fun wait_loop :: "real \<Rightarrow> (real \<times> PaxosProposer) list \<Rightarrow> PaxosProposer option" where
  "wait_loop start [] = None"
| "wait_loop start ((now, p) # polls) =
     (if wait_continues start now p then wait_loop start polls else Some p)"

text \<open>
  The end of \<open>simulate_paxos\<close>: the values read from the proposer, \<open>network.stop()\<close>,
  and the tuple returned. Subtracting from \<open>None\<close> raises \<open>TypeError\<close>.
\<close>

definition simulate_paxos_result ::
  "PaxosProposer \<Rightarrow> NetworkSimulator
     \<Rightarrow> error + (real \<times> bool \<times> real option \<times> int \<times> int) \<times> NetworkSimulator" where
  "simulate_paxos_result p net =
     (let consensus_before = (consensus_time p \<noteq> None)
      in case consensus_time p of
           None \<Rightarrow>
             Inr ((timeout_limit, consensus_before, None, rounds p, total_retries (stop net)),
                  stop net)
         | Some c \<Rightarrow>
             (case start_time p of
                None \<Rightarrow> Inl TypeError
              | Some s \<Rightarrow>
                  Inr ((timeout_limit, consensus_before, Some (c - s), rounds p,
                        total_retries (stop net)), stop net)))"

definition simulate_paxos_end ::
  "real \<Rightarrow> (real \<times> PaxosProposer) list \<Rightarrow> NetworkSimulator
     \<Rightarrow> (error + (real \<times> bool \<times> real option \<times> int \<times> int) \<times> NetworkSimulator) option" where
  "simulate_paxos_end start polls net =
     (case wait_loop start polls of
        None \<Rightarrow> None
      | Some p \<Rightarrow> Some (simulate_paxos_result p net))"

text \<open>
  The start of \<open>simulate_paxos\<close> for the first proposer: \<open>set_proposal\<close>, the
  driver's own write \<open>proposers[0].start_time = time.time()\<close> and then \<open>prepare()\<close>.
  \<open>t0\<close> is the clock reading of the write, \<open>t1\<close> that of \<open>prepare\<close>.
\<close>

definition set_start_time :: "real \<Rightarrow> PaxosProposer \<Rightarrow> PaxosProposer" where
  "set_start_time t p = p\<lparr>start_time := Some t\<rparr>"

definition driver_start ::
  "node_table \<Rightarrow> string \<Rightarrow> real \<Rightarrow> real \<Rightarrow> PaxosProposer \<Rightarrow> PaxosProposer" where
  "driver_start tbl v t0 t1 p = prepare tbl t1 (set_start_time t0 (set_proposal v p))"

section \<open>Concrete runs\<close>

text \<open>
  The text of a \<open>ProposalID\<close> as the named tuple of the library prints it, for the
  concrete runs below: \<open>ProposalID(number=2, uid='P0')\<close>.
\<close>

definition namedtuple_str :: "ProposalID \<Rightarrow> string" where
  "namedtuple_str pid =
     ''ProposalID(number='' @ (if fst pid < 0 then ''-'' else []) @ digits (nat \<bar>fst pid\<bar>) @
     '', uid='' @ [CHR 0x27] @ snd pid @ [CHR 0x27] @ '')''"

text \<open>A node table with one proposer and two acceptors, all running.\<close>

definition three_nodes :: node_table where
  "three_nodes =
     [(''P0'', \<lparr>node_role = Proposer_Role, node_running = True\<rparr>),
      (''A0'', \<lparr>node_role = Acceptor_Role, node_running = True\<rparr>),
      (''A1'', \<lparr>node_role = Acceptor_Role, node_running = True\<rparr>)]"

text \<open>
  Proposer \<open>P0\<close> with quorum 2 after \<open>set_proposal\<close>, \<open>prepare\<close> and the promises
  of both acceptors: it has sent its accept requests for \<open>(2, P0)\<close>.
\<close>

definition accept_phase_proposer :: PaxosProposer where
  "accept_phase_proposer =
     run_events namedtuple_str three_nodes
       [Ev_Set_Proposal ''v'', Ev_Prepare 0,
        Ev_Message 1 (mk_message ''promise'' ''A0'' ''P0'' (2, ''P0'') None None),
        Ev_Message 1 (mk_message ''promise'' ''A1'' ''P0'' (2, ''P0'') None None)]
       (new_proposer ''P0'' 2)"

text \<open>
  A network that has been stopped while acceptor \<open>A0\<close> is registered and running,
  and a prepare message on its way to \<open>A0\<close>.
\<close>

definition stopped_network :: NetworkSimulator where
  "stopped_network =
     stop (register_node ''A0'' \<lparr>node_role = Acceptor_Role, node_running = True\<rparr>
             (new_network (1 / 20, 1 / 10) 0))"

definition prepare_to_A0 :: NetworkMessage where
  "prepare_to_A0 = mk_message ''prepare'' ''P0'' ''A0'' (2, ''P0'') None None"

text \<open>The proposer of the run above after a crash (\<open>running = False\<close>).\<close>

definition crashed_proposer :: PaxosProposer where
  "crashed_proposer = step namedtuple_str three_nodes Ev_Crash accept_phase_proposer"



text \<open>
  A whole run of \<open>P0\<close>: the first prepare times out, the second round gets both
  promises and both accepted messages, the last at clock reading 7.
\<close>

definition decided_proposer :: PaxosProposer where
  "decided_proposer =
     run_events namedtuple_str three_nodes
       [Ev_Promise_Timeout 4 (2, ''P0''),
        Ev_Message 5 (mk_message ''promise'' ''A0'' ''P0'' (4, ''P0'') None None),
        Ev_Message 5 (mk_message ''promise'' ''A1'' ''P0'' (4, ''P0'') None None),
        Ev_Message 6 (mk_message ''accepted'' ''A0'' ''P0'' (4, ''P0'') None (Some ''v'')),
        Ev_Message 7 (mk_message ''accepted'' ''A1'' ''P0'' (4, ''P0'') None (Some ''v''))]
       (prepare three_nodes 0 (set_proposal ''v'' (new_proposer ''P0'' 2)))"


text \<open>
  A network that loses half of its messages, with acceptor \<open>A0\<close>; the same after a
  prepare message to \<open>A0\<close> was dropped at \<open>send_message\<close> (draw 0.1), and after the
  retry timer of that message fired and it was dropped again (draw 0.1). A network that
  loses everything.
\<close>

definition lossy_network :: NetworkSimulator where
  "lossy_network =
     register_node ''A0'' \<lparr>node_role = Acceptor_Role, node_running = True\<rparr>
       (new_network (0, 0) (1 / 2))"

definition dropped_once :: NetworkSimulator where
  "dropped_once = send_message namedtuple_str (1 / 10) 0 prepare_to_A0 0 lossy_network"



text \<open>
  The same run of two rounds when the driver starts it: start time written at clock
  reading 0, first \<open>prepare\<close> at 1, last accepted message at 8.
\<close>

definition driver_run_proposer :: PaxosProposer where
  "driver_run_proposer =
     run_events namedtuple_str three_nodes
       [Ev_Promise_Timeout 5 (2, ''P0''),
        Ev_Message 6 (mk_message ''promise'' ''A0'' ''P0'' (4, ''P0'') None None),
        Ev_Message 6 (mk_message ''promise'' ''A1'' ''P0'' (4, ''P0'') None None),
        Ev_Message 7 (mk_message ''accepted'' ''A0'' ''P0'' (4, ''P0'') None (Some ''v'')),
        Ev_Message 8 (mk_message ''accepted'' ''A1'' ''P0'' (4, ''P0'') None (Some ''v''))]
       (driver_start three_nodes ''v'' 0 1 (new_proposer ''P0'' 2))"

section \<open>The learner's tally\<close>

lemma learner_ignores_other_kinds:
  "msg_type msg \<noteq> ''accepted'' \<Longrightarrow> learner_handle_message f msg l = l"
  by (simp add: learner_handle_message_def)

text \<open>
  C1. The claim asks that an accepted notification from a sender already tallied for the
  proposal id is not counted again, so that a tally reaches quorum only with
  \<open>quorum_size\<close> distinct senders. \<open>handle_message\<close> adds one to \<open>count\<close> for every
  accepted message and never consults \<open>received\<close>: with \<open>quorum_size = 2\<close>, the same
  notification of acceptor \<open>A0\<close> delivered twice resolves proposal \<open>(2, P0)\<close>, although
  one acceptor only has sent it.
\<close>

theorem learner_double_counts_sender:
  "resolutions
     (learner_handle_message (\<lambda>s p v b. b)
        (mk_message ''accepted'' ''A0'' ''L0'' (2, ''P0'') None (Some ''v''))
        (learner_handle_message (\<lambda>s p v b. b)
           (mk_message ''accepted'' ''A0'' ''L0'' (2, ''P0'') None (Some ''v''))
           (new_learner ''L0'' 2 ())))
   = [((2, ''P0''), Some ''v'')]
   \<and> tally_received
       (the (pending_accepted
          (learner_handle_message (\<lambda>s p v b. b)
             (mk_message ''accepted'' ''A0'' ''L0'' (2, ''P0'') None (Some ''v''))
             (new_learner ''L0'' 2 ())) (2, ''P0''))) = {''A0''}
   \<and> tally_count
       (the (pending_accepted
          (learner_handle_message (\<lambda>s p v b. b)
             (mk_message ''accepted'' ''A0'' ''L0'' (2, ''P0'') None (Some ''v''))
             (new_learner ''L0'' 2 ())) (2, ''P0''))) = 1"
  by (simp add: learner_handle_message_def mk_message_def new_learner_def Let_def)

section \<open>Timeouts of the proposer\<close>

lemma run_events_append:
  "run_events render tbl (xs @ ys) p = run_events render tbl ys (run_events render tbl xs p)"
  by (induction xs arbitrary: p) simp_all

lemma prepare_running_fields:
  assumes "running p"
  shows "running (prepare tbl now p)"
    and "quorum_size (prepare tbl now p) = quorum_size p"
    and "node_id (prepare tbl now p) = node_id p"
    and "next_proposal_number (prepare tbl now p) = next_proposal_number p + 1"
    and "current_id (prepare tbl now p) = Some (next_proposal_number p + 1, node_id p)"
    and "current_phase (prepare tbl now p) = Some Prepare"
    and "rounds (prepare tbl now p) = rounds p + 1"
    and "pending_promises (prepare tbl now p) (next_proposal_number p + 1, node_id p)
           = Some \<lparr>pr_count = 0, pr_start_time = now, pr_received = {}, pr_value = None, pr_retry_count = 0\<rparr>"
  using assms by (simp_all add: prepare_def Let_def)

lemma check_promise_timeout_retry:
  assumes "pending_promises p pid = Some e" "pr_count e < quorum_size p" "pr_retry_count e < 2"
  shows "check_promise_timeout tbl now pid p =
           prepare tbl now
             (p\<lparr>pending_promises := (pending_promises p)(pid \<mapsto> e\<lparr>pr_retry_count := pr_retry_count e + 1\<rparr>),
                next_proposal_number := next_proposal_number p + 1,
                current_phase := None\<rparr>)"
  using assms by (simp add: check_promise_timeout_def Let_def)

lemma promise_timeouts_invariant:
  assumes "0 < q"
  shows "let p = run_events render tbl
                   (map (\<lambda>i. Ev_Promise_Timeout (ts i) (2 + 2 * int i, nid)) [0..<k])
                   (prepare tbl t0 (new_proposer nid q))
         in running p \<and> quorum_size p = q \<and> node_id p = nid
            \<and> next_proposal_number p = 2 + 2 * int k
            \<and> current_id p = Some (2 + 2 * int k, nid)
            \<and> current_phase p = Some Prepare
            \<and> rounds p = 1 + int k
            \<and> (\<exists>t. pending_promises p (2 + 2 * int k, nid) = Some
                  \<lparr>pr_count = 0, pr_start_time = t, pr_received = {}, pr_value = None, pr_retry_count = 0\<rparr>)"
proof (induction k)
  case 0
  have r: "running (new_proposer nid q)" by (simp add: new_proposer_def)
  show ?case using prepare_running_fields[OF r, of tbl t0]
    by (simp add: new_proposer_def)
next
  case (Suc k)
  define p where "p = run_events render tbl
                   (map (\<lambda>i. Ev_Promise_Timeout (ts i) (2 + 2 * int i, nid)) [0..<k])
                   (prepare tbl t0 (new_proposer nid q))"
  from Suc have inv: "running p" "quorum_size p = q" "node_id p = nid"
     "next_proposal_number p = 2 + 2 * int k" "rounds p = 1 + int k"
    and ex: "\<exists>t. pending_promises p (2 + 2 * int k, nid) = Some
                  \<lparr>pr_count = 0, pr_start_time = t, pr_received = {}, pr_value = None, pr_retry_count = 0\<rparr>"
    by (simp_all add: p_def Let_def)
  from ex obtain t where e: "pending_promises p (2 + 2 * int k, nid) = Some
                  \<lparr>pr_count = 0, pr_start_time = t, pr_received = {}, pr_value = None, pr_retry_count = 0\<rparr>" by blast
  define p1 where "p1 = p\<lparr>pending_promises := (pending_promises p)((2 + 2 * int k, nid) \<mapsto>
        \<lparr>pr_count = 0, pr_start_time = t, pr_received = {}, pr_value = None, pr_retry_count = 0\<rparr>\<lparr>pr_retry_count := pr_retry_count \<lparr>pr_count = 0, pr_start_time = t, pr_received = {}, pr_value = None, pr_retry_count = 0\<rparr> + 1\<rparr>),
                next_proposal_number := next_proposal_number p + 1,
                current_phase := None\<rparr>"
  have step: "check_promise_timeout tbl (ts k) (2 + 2 * int k, nid) p = prepare tbl (ts k) p1"
    unfolding p1_def using assms inv
    by (intro check_promise_timeout_retry[OF e]) simp_all
  have r1: "running p1" and f1: "quorum_size p1 = q" "node_id p1 = nid"
      "next_proposal_number p1 = 3 + 2 * int k" "rounds p1 = 1 + int k"
    using inv by (simp_all add: p1_def)
  have run: "run_events render tbl
                   (map (\<lambda>i. Ev_Promise_Timeout (ts i) (2 + 2 * int i, nid)) [0..<Suc k])
                   (prepare tbl t0 (new_proposer nid q)) = prepare tbl (ts k) p1"
    using step by (simp add: run_events_append p_def)
  show ?case unfolding run Let_def
    using prepare_running_fields[OF r1, of tbl "ts k"] f1 by (auto simp: algebra_simps)
qed


text \<open>
  C4. The claim has the proposer retry a timed-out prepare at most three times and then
  give up. The retry counter lives in the entry of \<open>pending_promises\<close> for the
  proposal id whose timer fired, and every retry calls \<open>prepare\<close>, which makes a new
  entry with \<open>retry_count = 0\<close> under a new id: each timer finds the counter at 0. So
  a proposer with a positive quorum that receives no promise is in the prepare phase
  with a higher proposal id after any number \<open>k\<close> of expired timers, with
  \<open>rounds = 1 + k\<close>; it never takes the branch that gives up.
\<close>

theorem promise_timeout_never_gives_up:
  "0 < q \<Longrightarrow>
     (let p = run_events render tbl
                (map (\<lambda>i. Ev_Promise_Timeout (ts i) (2 + 2 * int i, nid)) [0..<k])
                (prepare tbl t0 (new_proposer nid q))
      in current_phase p = Some Prepare \<and> rounds p = 1 + int k
         \<and> current_id p = Some (2 + 2 * int k, nid))"
  using promise_timeouts_invariant[of q render tbl ts nid k t0] by (simp add: Let_def)

text \<open>Four timers in a row: the fourth retry is made, under the id \<open>(10, P0)\<close>.\<close>

theorem promise_timeout_never_gives_up_witness:
  "0 < (2::int) \<and>
     (let p = run_events namedtuple_str three_nodes
                [Ev_Promise_Timeout 4 (2, ''P0''), Ev_Promise_Timeout 8 (4, ''P0''),
                 Ev_Promise_Timeout 12 (6, ''P0''), Ev_Promise_Timeout 16 (8, ''P0'')]
                (prepare three_nodes 0 (new_proposer ''P0'' 2))
      in current_phase p = Some Prepare \<and> rounds p = 5 \<and> current_id p = Some (10, ''P0''))"
proof -
  have q: "0 < (2::int)" by simp
  have evs: "map (\<lambda>i. Ev_Promise_Timeout (4 * (1 + real i)) (2 + 2 * int i, ''P0'')) [0..<4]
     = [Ev_Promise_Timeout 4 (2, ''P0''), Ev_Promise_Timeout 8 (4, ''P0''),
        Ev_Promise_Timeout 12 (6, ''P0''), Ev_Promise_Timeout 16 (8, ''P0'')]"
    by (simp add: upt_rec)
  show ?thesis
    using promise_timeout_never_gives_up
            [OF q, of namedtuple_str three_nodes "\<lambda>i. 4 * (1 + real i)" "''P0''" 4 0]
    unfolding evs by simp
qed

lemma check_accept_timeout_resend:
  assumes "running p" "quorum_reached p" "pending_accepts p pid = Some e"
    "ac_count e < quorum_size p" "ac_retry_count e < 2"
  shows "check_accept_timeout tbl now pid p =
           send_accept tbl now pid (ac_value e)
             (p\<lparr>pending_accepts := (pending_accepts p)(pid \<mapsto>
                   e\<lparr>ac_retry_count := ac_retry_count e + 1\<rparr>),
                rounds := rounds p + 1\<rparr>)"
  using assms by (simp add: check_accept_timeout_def Let_def)

lemma send_accept_running_fields:
  assumes "running p" "quorum_reached p"
  shows "running (send_accept tbl now pid v p)"
    and "quorum_reached (send_accept tbl now pid v p)"
    and "quorum_size (send_accept tbl now pid v p) = quorum_size p"
    and "current_id (send_accept tbl now pid v p) = current_id p"
    and "next_proposal_number (send_accept tbl now pid v p) = next_proposal_number p"
    and "rounds (send_accept tbl now pid v p) = rounds p"
    and "current_phase (send_accept tbl now pid v p) = Some Accept"
    and "pending_accepts (send_accept tbl now pid v p) pid =
           Some \<lparr>ac_count = 0, ac_start_time = now, ac_received = {}, ac_value = v,
                 ac_retry_count = 0\<rparr>"
    and "outbox (send_accept tbl now pid v p) =
           outbox p @ map (\<lambda>a. mk_message ''accept'' (node_id p) a pid None v) (acceptor_ids tbl)"
    and "timers (send_accept tbl now pid v p) = timers p @ [(timeout p, Accept_Timer pid)]"
  using assms by (simp_all add: send_accept_def)

lemma accept_timeouts_invariant:
  assumes "running p" "quorum_reached p" "0 < quorum_size p"
    "pending_accepts p pid = Some e" "ac_count e < quorum_size p" "ac_retry_count e = 0"
  shows "let p' = run_events render tbl (map (\<lambda>t. Ev_Accept_Timeout t pid) ts) p
         in running p' \<and> quorum_reached p' \<and> quorum_size p' = quorum_size p
            \<and> current_id p' = current_id p
            \<and> next_proposal_number p' = next_proposal_number p
            \<and> rounds p' = rounds p + int (length ts)
            \<and> (ts \<noteq> [] \<longrightarrow> current_phase p' = Some Accept)
            \<and> (\<exists>e'. pending_accepts p' pid = Some e' \<and> ac_retry_count e' = 0
                    \<and> ac_value e' = ac_value e \<and> ac_count e' < quorum_size p')"
proof (induction ts rule: rev_induct)
  case Nil
  show ?case using assms by simp
next
  case (snoc t ts)
  define p1 where "p1 = run_events render tbl (map (\<lambda>t. Ev_Accept_Timeout t pid) ts) p"
  note ih = snoc[unfolded Let_def, folded p1_def]
  from ih have inv: "running p1" "quorum_reached p1" "quorum_size p1 = quorum_size p"
      "current_id p1 = current_id p" "next_proposal_number p1 = next_proposal_number p"
      "rounds p1 = rounds p + int (length ts)"
    by blast+
  from ih have ex: "\<exists>e'. pending_accepts p1 pid = Some e' \<and> ac_retry_count e' = 0
                    \<and> ac_value e' = ac_value e \<and> ac_count e' < quorum_size p1"
    by blast
  from ex obtain e' where e': "pending_accepts p1 pid = Some e'" "ac_retry_count e' = 0"
      "ac_value e' = ac_value e" "ac_count e' < quorum_size p1" by blast
  define p2 where "p2 = p1\<lparr>pending_accepts := (pending_accepts p1)(pid \<mapsto>
                   e'\<lparr>ac_retry_count := ac_retry_count e' + 1\<rparr>),
                rounds := rounds p1 + 1\<rparr>"
  have step: "check_accept_timeout tbl t pid p1 = send_accept tbl t pid (ac_value e') p2"
    unfolding p2_def using inv e' by (intro check_accept_timeout_resend) simp_all
  have r2: "running p2" "quorum_reached p2" using inv by (simp_all add: p2_def)
  have f2: "quorum_size p2 = quorum_size p" "current_id p2 = current_id p"
      "next_proposal_number p2 = next_proposal_number p"
      "rounds p2 = rounds p + int (length ts) + 1"
    using inv by (simp_all add: p2_def)
  have run: "run_events render tbl (map (\<lambda>t. Ev_Accept_Timeout t pid) (ts @ [t])) p
               = send_accept tbl t pid (ac_value e') p2"
    using step by (simp add: run_events_append p1_def)
  show ?case unfolding run Let_def
    using send_accept_running_fields[OF r2, of tbl t pid "ac_value e'"] f2 e'(3) assms(3)
    by simp
qed


text \<open>
  C3. The claim has the proposer count the expired accept timers and, past the cap of 3,
  abandon the accept phase and start again from \<open>prepare\<close>. Below the cap
  \<open>_check_accept_timeout\<close> calls \<open>send_accept\<close>, which stores a new entry with
  \<open>retry_count = 0\<close> over the entry just counted up. So for a running proposer in the
  accept phase whose accepted count stays below the quorum, after any list \<open>ts\<close> of
  expiries of the accept timer the proposal id and the proposal number are unchanged,
  the phase is \<open>accept\<close>, the value is the same and the retry counter is back at 0:
  the counter never exceeds 1 and \<open>prepare\<close> is never run again.
\<close>

theorem accept_timeout_never_restarts:
  assumes "running p" "quorum_reached p" "0 < quorum_size p"
    "pending_accepts p pid = Some e" "ac_count e < quorum_size p" "ac_retry_count e = 0"
  shows "let p' = run_events render tbl (map (\<lambda>t. Ev_Accept_Timeout t pid) ts) p
         in current_id p' = current_id p
            \<and> next_proposal_number p' = next_proposal_number p
            \<and> rounds p' = rounds p + int (length ts)
            \<and> (ts \<noteq> [] \<longrightarrow> current_phase p' = Some Accept)
            \<and> map_option ac_retry_count (pending_accepts p' pid) = Some 0
            \<and> map_option ac_value (pending_accepts p' pid) = Some (ac_value e)"
  using accept_timeouts_invariant[OF assms, of render tbl ts] by (auto simp: Let_def)

lemma accept_phase_proposer_fields:
  "running accept_phase_proposer" "quorum_reached accept_phase_proposer"
  "quorum_size accept_phase_proposer = 2"
  "current_id accept_phase_proposer = Some (2, ''P0'')"
  "next_proposal_number accept_phase_proposer = 2"
  "rounds accept_phase_proposer = 1"
  "current_phase accept_phase_proposer = Some Accept"
  "pending_accepts accept_phase_proposer (2, ''P0'') =
     Some \<lparr>ac_count = 0, ac_start_time = 1, ac_received = {}, ac_value = Some ''v'',
           ac_retry_count = 0\<rparr>"
  by (simp_all add: accept_phase_proposer_def set_proposal_def prepare_def new_proposer_def
        process_message_def handle_promise_def send_accept_def processed_id_def
        namedtuple_str_def three_nodes_def acceptor_ids_def mk_message_def Let_def)

text \<open>Four expiries of the accept timer of \<open>(2, P0)\<close> after a real prepare phase.\<close>

theorem accept_timeout_never_restarts_witness:
  "running accept_phase_proposer \<and> quorum_reached accept_phase_proposer
   \<and> 0 < quorum_size accept_phase_proposer
   \<and> pending_accepts accept_phase_proposer (2, ''P0'') =
       Some \<lparr>ac_count = 0, ac_start_time = 1, ac_received = {}, ac_value = Some ''v'',
             ac_retry_count = 0\<rparr>
   \<and> (let p' = run_events namedtuple_str three_nodes
                  [Ev_Accept_Timeout 5 (2, ''P0''), Ev_Accept_Timeout 9 (2, ''P0''),
                   Ev_Accept_Timeout 13 (2, ''P0''), Ev_Accept_Timeout 17 (2, ''P0'')]
                  accept_phase_proposer
       in current_id p' = Some (2, ''P0'') \<and> next_proposal_number p' = 2 \<and> rounds p' = 5
          \<and> current_phase p' = Some Accept
          \<and> map_option ac_retry_count (pending_accepts p' (2, ''P0'')) = Some 0
          \<and> map_option ac_value (pending_accepts p' (2, ''P0'')) = Some (Some ''v''))"
proof -
  note f = accept_phase_proposer_fields
  have e: "pending_accepts accept_phase_proposer (2, ''P0'') =
     Some \<lparr>ac_count = 0, ac_start_time = 1, ac_received = {}, ac_value = Some ''v'',
           ac_retry_count = 0\<rparr>" by (rule f(8))
  show ?thesis
    using accept_timeout_never_restarts
            [OF f(1) f(2) _ e, of namedtuple_str three_nodes "[5, 9, 13, 17]"] f
    by (simp add: Let_def)
qed

section \<open>Delivery\<close>

lemma deliver_message_general:
  "invoked (deliver_message msg tok net) =
     (if (\<exists>n. map_of (nodes net) (receiver msg) = Some n \<and> node_running n)
      then invoked net @ [(receiver msg, msg)] else invoked net)"
  "tok \<notin> active_messages (deliver_message msg tok net)"
  by (auto simp: deliver_message_def deliver_to_def Let_def split: option.splits)

text \<open>
  C6. The claim lets a delivery call the receiver's handler only while the network is
  running. \<open>_deliver_message\<close> tests that the receiver is registered and that it runs,
  and removes the token in any case, but it never reads the network's \<open>running\<close> flag
  (as \<open>_retry_message\<close> and \<open>send_message\<close> do): a delivery thread that is still
  sleeping when \<open>stop()\<close> is called hands its message to \<open>A0\<close>, where the retry path
  on the same stopped network hands over nothing.
\<close>

theorem deliver_message_ignores_stop:
  "net_running stopped_network = False
   \<and> invoked stopped_network = []
   \<and> invoked (deliver_message prepare_to_A0 (message_token namedtuple_str prepare_to_A0 0)
                stopped_network) = [(''A0'', prepare_to_A0)]"
  by (simp add: stopped_network_def stop_def register_node_def new_network_def
        deliver_message_def deliver_to_def Let_def prepare_to_A0_def mk_message_def)

text \<open>The retry path on the same stopped network, for comparison.\<close>

lemma retry_message_respects_stop:
  "invoked (retry_message 0 (message_token namedtuple_str prepare_to_A0 0) ''P0'' ''A0''
              prepare_to_A0 1 stopped_network) = []"
  by (simp add: stopped_network_def stop_def register_node_def new_network_def
        retry_message_def)

section \<open>\<open>send_accept\<close>\<close>

lemma acceptor_ids_set:
  "set (acceptor_ids tbl) = {nid. \<exists>n. (nid, n) \<in> set tbl \<and> node_role n = Acceptor_Role}"
  by (auto simp: acceptor_ids_def image_iff)

lemma crashed_proposer_fields:
  "\<not> running crashed_proposer" "quorum_reached crashed_proposer"
  using accept_phase_proposer_fields(2) by (simp_all add: crashed_proposer_def)

text \<open>
  C7, as stated, fails for a crashed proposer: \<open>send_accept\<close> returns at once when
  \<open>running\<close> is false, also when the quorum has been reached. Nothing is sent to the
  two acceptors and no timer is started.
\<close>

theorem send_accept_crashed_counterexample:
  "quorum_reached crashed_proposer
   \<and> acceptor_ids three_nodes = [''A0'', ''A1'']
   \<and> outbox (send_accept three_nodes 2 (2, ''P0'') (Some ''v'') crashed_proposer)
       = outbox crashed_proposer
   \<and> timers (send_accept three_nodes 2 (2, ''P0'') (Some ''v'') crashed_proposer)
       = timers crashed_proposer"
  using crashed_proposer_fields
  by (simp add: send_accept_def three_nodes_def acceptor_ids_def)

text \<open>
  C7, amended. A call of \<open>send_accept\<close> changes nothing when \<open>quorum_reached\<close> is
  false, and nothing when the proposer is not running. For a running proposer with
  \<open>quorum_reached\<close> it sets the phase to \<open>accept\<close>, hands one \<open>accept(id, value)\<close>
  for every acceptor of the node table to the network, resets the set of received
  accepteds of that proposal id (the entry stored in \<open>pending_accepts\<close> has no sender
  received and the value just sent), leaves the entries of other proposal ids alone, and
  starts an accept timer.
\<close>

theorem send_accept_effect:
  "(\<not> quorum_reached p \<longrightarrow> send_accept tbl now pid v p = p)
   \<and> (\<not> running p \<longrightarrow> send_accept tbl now pid v p = p)
   \<and> (running p \<and> quorum_reached p \<longrightarrow>
        (let p' = send_accept tbl now pid v p
         in current_phase p' = Some Accept
            \<and> outbox p' = outbox p @
                 map (\<lambda>a. mk_message ''accept'' (node_id p) a pid None v) (acceptor_ids tbl)
            \<and> pending_accepts p' pid =
                 Some \<lparr>ac_count = 0, ac_start_time = now, ac_received = {}, ac_value = v,
                       ac_retry_count = 0\<rparr>
            \<and> (\<forall>pid'. pid' \<noteq> pid \<longrightarrow> pending_accepts p' pid' = pending_accepts p pid')
            \<and> timers p' = timers p @ [(timeout p, Accept_Timer pid)]))"
  by (simp add: send_accept_def Let_def)

theorem send_accept_effect_witness:
  "\<not> quorum_reached (new_proposer ''P0'' 2)
   \<and> send_accept three_nodes 5 (2, ''P0'') (Some ''v'') (new_proposer ''P0'' 2)
       = new_proposer ''P0'' 2
   \<and> \<not> running crashed_proposer
   \<and> send_accept three_nodes 5 (2, ''P0'') (Some ''v'') crashed_proposer = crashed_proposer
   \<and> running accept_phase_proposer \<and> quorum_reached accept_phase_proposer
   \<and> current_phase (send_accept three_nodes 5 (2, ''P0'') (Some ''v'') accept_phase_proposer)
       = Some Accept
   \<and> outbox (send_accept three_nodes 5 (2, ''P0'') (Some ''v'') accept_phase_proposer)
       = outbox accept_phase_proposer @
           [mk_message ''accept'' ''P0'' ''A0'' (2, ''P0'') None (Some ''v''),
            mk_message ''accept'' ''P0'' ''A1'' (2, ''P0'') None (Some ''v'')]
   \<and> pending_accepts (send_accept three_nodes 5 (2, ''P0'') (Some ''v'') accept_phase_proposer)
         (2, ''P0'')
       = Some \<lparr>ac_count = 0, ac_start_time = 5, ac_received = {}, ac_value = Some ''v'',
               ac_retry_count = 0\<rparr>"
proof -
  have n: "\<not> quorum_reached (new_proposer ''P0'' 2)" by (simp add: new_proposer_def)
  have id: "node_id accept_phase_proposer = ''P0''"
    by (simp add: accept_phase_proposer_def set_proposal_def prepare_def new_proposer_def
        process_message_def handle_promise_def send_accept_def processed_id_def
        namedtuple_str_def three_nodes_def acceptor_ids_def mk_message_def Let_def)
  have a: "acceptor_ids three_nodes = [''A0'', ''A1'']"
    by (simp add: three_nodes_def acceptor_ids_def)
  show ?thesis
    using send_accept_effect[of "new_proposer ''P0'' 2" three_nodes 5 "(2, ''P0'')" "Some ''v''"]
      send_accept_effect[of crashed_proposer three_nodes 5 "(2, ''P0'')" "Some ''v''"]
      send_accept_effect[of accept_phase_proposer three_nodes 5 "(2, ''P0'')" "Some ''v''"]
      n crashed_proposer_fields accept_phase_proposer_fields(1,2) id a
    by (simp add: Let_def)
qed

section \<open>What every operation of the proposer leaves alone\<close>

lemma prepare_frame:
  "processed_messages (prepare tbl now p) = processed_messages p"
  "start_time (prepare tbl now p) =
     (if running p \<and> start_time p = None then Some now else start_time p)"
  "running (prepare tbl now p) = running p"
  by (simp_all add: prepare_def Let_def)

lemma send_accept_frame:
  "processed_messages (send_accept tbl now pid v p) = processed_messages p"
  "start_time (send_accept tbl now pid v p) = start_time p"
  "running (send_accept tbl now pid v p) = running p"
  by (simp_all add: send_accept_def)

lemma check_promise_timeout_frame:
  "processed_messages (check_promise_timeout tbl now pid p) = processed_messages p"
  "start_time p = Some s \<Longrightarrow> start_time (check_promise_timeout tbl now pid p) = Some s"
  by (simp_all add: check_promise_timeout_def prepare_frame Let_def split: option.splits)

lemma check_accept_timeout_frame:
  "processed_messages (check_accept_timeout tbl now pid p) = processed_messages p"
  "start_time p = Some s \<Longrightarrow> start_time (check_accept_timeout tbl now pid p) = Some s"
  by (simp_all add: check_accept_timeout_def prepare_frame send_accept_frame Let_def
        split: option.splits)

lemma handle_promise_frame:
  "processed_messages (snd (handle_promise tbl now msg p)) = processed_messages p"
  "start_time (snd (handle_promise tbl now msg p)) = start_time p"
  by (simp_all add: handle_promise_def send_accept_frame Let_def
        split: option.splits prod.splits)

lemma handle_accepted_frame:
  "processed_messages (handle_accepted now msg p) = processed_messages p"
  "start_time (handle_accepted now msg p) = start_time p"
  by (simp_all add: handle_accepted_def Let_def split: option.splits)

lemma process_message_frame:
  "processed_messages (process_message render tbl now msg p)
     = insert (processed_id render msg) (processed_messages p)"
  "start_time (process_message render tbl now msg p) = start_time p"
  by (auto simp: process_message_def handle_promise_frame handle_accepted_frame Let_def)

lemma step_frame:
  "processed_messages p \<subseteq> processed_messages (step render tbl e p)"
  "start_time p = Some s \<Longrightarrow> start_time (step render tbl e p) = Some s"
  by (cases e; auto simp: process_message_frame prepare_frame send_accept_frame
        check_promise_timeout_frame check_accept_timeout_frame set_proposal_def)+

lemma run_events_frame:
  "processed_messages p \<subseteq> processed_messages (run_events render tbl es p)"
  "start_time p = Some s \<Longrightarrow> start_time (run_events render tbl es p) = Some s"
proof (induction es arbitrary: p)
  case Nil
  { case 1 show ?case by simp }
  { case 2 then show ?case by simp }
next
  case (Cons e es)
  { case 1 show ?case using Cons(1)[of "step render tbl e p"] step_frame(1)[of p render tbl e] by auto }
  { case 2 then show ?case using Cons(2)[of "step render tbl e p"] step_frame(2)[of p s render tbl e] by simp }
qed

lemma process_message_skip:
  "processed_id render msg \<in> processed_messages p \<Longrightarrow>
     process_message render tbl now msg p = p"
  by (simp add: process_message_def)

text \<open>
  C9. Once the loop of \<open>_process_messages\<close> of a running proposer has taken a message
  \<open>m\<close>, then after any further events (messages, timers, new rounds, crashes and
  restarts) a message \<open>m'\<close> with the same sender, kind and proposal id has its
  identifier in \<open>processed_messages\<close>, and taking it from the queue changes nothing:
  it reaches no handler.
\<close>

theorem processed_triple_skipped:
  assumes "running p"
    and "sender m' = sender m" "msg_type m' = msg_type m" "proposal_id m' = proposal_id m"
  shows "let s = run_events render tbl es (step render tbl (Ev_Message t m) p)
         in processed_id render m' \<in> processed_messages s
            \<and> step render tbl (Ev_Message t' m') s = s"
proof -
  define s where "s = run_events render tbl es (step render tbl (Ev_Message t m) p)"
  have "processed_id render m' = processed_id render m"
    using assms(2-4) by (simp add: processed_id_def)
  moreover have "processed_id render m \<in> processed_messages (step render tbl (Ev_Message t m) p)"
    using assms(1) by (simp add: process_message_frame)
  ultimately have a: "processed_id render m' \<in> processed_messages s"
    using run_events_frame(1)[of "step render tbl (Ev_Message t m) p" render tbl es]
    by (auto simp: s_def)
  then have b: "step render tbl (Ev_Message t' m') s = s"
    by (simp add: process_message_skip)
  show ?thesis
    unfolding Let_def using a[unfolded s_def] b[unfolded s_def] by blast
qed

theorem processed_triple_skipped_witness:
  "running accept_phase_proposer
   \<and> (let s = run_events namedtuple_str three_nodes
                 [Ev_Accept_Timeout 5 (2, ''P0'')]
                 (step namedtuple_str three_nodes
                    (Ev_Message 2 (mk_message ''accepted'' ''A0'' ''P0'' (2, ''P0'') None (Some ''v'')))
                    accept_phase_proposer)
       in processed_id namedtuple_str
            (mk_message ''accepted'' ''A0'' ''P0'' (2, ''P0'') None (Some ''v''))
            \<in> processed_messages s
          \<and> step namedtuple_str three_nodes
              (Ev_Message 6 (mk_message ''accepted'' ''A0'' ''P0'' (2, ''P0'') None (Some ''v'')))
              s = s)"
  using processed_triple_skipped
          [OF accept_phase_proposer_fields(1), of
             "mk_message ''accepted'' ''A0'' ''P0'' (2, ''P0'') None (Some ''v'')"
             "mk_message ''accepted'' ''A0'' ''P0'' (2, ''P0'') None (Some ''v'')"
             namedtuple_str three_nodes "[Ev_Accept_Timeout 5 (2, ''P0'')]" 2 6]
        accept_phase_proposer_fields(1)
  by (simp only: simp_thms)

lemma decided_proposer_fields:
  "consensus_time decided_proposer = Some 7"
  "rounds decided_proposer = 2"
  "current_phase decided_proposer = None"
  by (simp_all add: decided_proposer_def set_proposal_def prepare_def new_proposer_def
        check_promise_timeout_def
        process_message_def handle_promise_def handle_accepted_def send_accept_def
        processed_id_def
        namedtuple_str_def three_nodes_def acceptor_ids_def mk_message_def Let_def)

lemma driver_start_fields:
  "running (set_start_time 0 (set_proposal ''v'' (new_proposer ''P0'' 2)))"
  "start_time (set_start_time 0 (set_proposal ''v'' (new_proposer ''P0'' 2))) = Some 0"
  "start_time (driver_start three_nodes ''v'' 0 1 (new_proposer ''P0'' 2)) = Some 0"
  "rounds (driver_start three_nodes ''v'' 0 1 (new_proposer ''P0'' 2)) = 1"
  "current_id (driver_start three_nodes ''v'' 0 1 (new_proposer ''P0'' 2)) = Some (2, ''P0'')"
  by (simp_all add: driver_start_def set_start_time_def set_proposal_def new_proposer_def
        prepare_def Let_def)

lemma driver_run_proposer_fields:
  "consensus_time driver_run_proposer = Some 8"
  "rounds driver_run_proposer = 2"
  by (simp_all add: driver_run_proposer_def driver_start_def set_start_time_def
        set_proposal_def prepare_def new_proposer_def check_promise_timeout_def
        process_message_def handle_promise_def handle_accepted_def send_accept_def
        processed_id_def
        namedtuple_str_def three_nodes_def acceptor_ids_def mk_message_def Let_def)

lemma driver_run_start_time: "start_time driver_run_proposer = Some 0"
  unfolding driver_run_proposer_def
  by (rule run_events_frame(2)) (rule driver_start_fields(3))

text \<open>
  C10, as stated, fails in the run that \<open>simulate_paxos\<close> makes: the driver writes
  \<open>start_time\<close> itself before it calls \<open>prepare()\<close>, so the first \<open>prepare\<close>
  (clock reading 1, first round) finds it set and assigns nothing. The latency the driver
  reports for the consensus at 8 is 8, counted from the driver's write at 0, not from
  the first \<open>prepare\<close>.
\<close>

theorem first_prepare_keeps_driver_start_time_counterexample:
  "start_time (new_proposer ''P0'' 2) = None
   \<and> rounds (set_start_time 0 (set_proposal ''v'' (new_proposer ''P0'' 2))) = 0
   \<and> rounds (driver_start three_nodes ''v'' 0 1 (new_proposer ''P0'' 2)) = 1
   \<and> start_time (driver_start three_nodes ''v'' 0 1 (new_proposer ''P0'' 2)) = Some 0
   \<and> consensus_time driver_run_proposer = Some 8
   \<and> map_sum id fst (simulate_paxos_result driver_run_proposer (new_network (0, 0) 0))
       = Inr (30, True, Some 8, 2, 0)"
  using driver_start_fields driver_run_proposer_fields driver_run_start_time
  by (simp add: simulate_paxos_result_def timeout_limit_def stop_def new_network_def
        new_proposer_def set_start_time_def set_proposal_def)

lemma latency_from_start_time:
  "start_time q = Some s \<Longrightarrow> consensus_time q = Some c \<Longrightarrow>
     \<exists>r n. simulate_paxos_result q net =
              Inr ((timeout_limit, True, Some (c - s), r, n), stop net)"
  by (simp add: simulate_paxos_result_def)

text \<open>
  C10, amended. \<open>prepare\<close> assigns \<open>start_time\<close> only when it is still unset (and
  the proposer runs): at the first \<open>prepare\<close>, unless a caller has written it before,
  as the driver does. Once it is set, to \<open>s\<close>, every later event, the \<open>prepare\<close> of
  every later round among them, leaves it unchanged, and the latency reported for a
  consensus time \<open>c\<close> is \<open>c - s\<close>: the span from that first assignment through all
  rounds. For a running proposer without start time, \<open>s\<close> is the clock reading of
  its first \<open>prepare\<close>.
\<close>

theorem start_time_kept_once_set:
  "start_time (prepare tbl now p) =
     (if running p \<and> start_time p = None then Some now else start_time p)
   \<and> (start_time p = Some s \<longrightarrow>
        start_time (run_events render tbl es p) = Some s
        \<and> (consensus_time (run_events render tbl es p) = Some c \<longrightarrow>
             (\<exists>r n. simulate_paxos_result (run_events render tbl es p) net =
                      Inr ((timeout_limit, True, Some (c - s), r, n), stop net))))
   \<and> (running p \<and> start_time p = None \<longrightarrow>
        start_time (run_events render tbl es (prepare tbl now p)) = Some now
        \<and> (consensus_time (run_events render tbl es (prepare tbl now p)) = Some c \<longrightarrow>
             (\<exists>r n. simulate_paxos_result (run_events render tbl es (prepare tbl now p)) net =
                      Inr ((timeout_limit, True, Some (c - now), r, n), stop net))))"
proof (intro conjI impI)
  show "start_time (prepare tbl now p) =
     (if running p \<and> start_time p = None then Some now else start_time p)"
    by (rule prepare_frame(2))
next
  assume "start_time p = Some s"
  then show "start_time (run_events render tbl es p) = Some s"
    by (rule run_events_frame(2))
next
  assume "start_time p = Some s" and c: "consensus_time (run_events render tbl es p) = Some c"
  then have "start_time (run_events render tbl es p) = Some s"
    by (intro run_events_frame(2))
  then show "\<exists>r n. simulate_paxos_result (run_events render tbl es p) net =
                      Inr ((timeout_limit, True, Some (c - s), r, n), stop net)"
    using c by (rule latency_from_start_time)
next
  assume "running p \<and> start_time p = None"
  then have "start_time (prepare tbl now p) = Some now"
    by (simp add: prepare_frame(2))
  then show "start_time (run_events render tbl es (prepare tbl now p)) = Some now"
    by (rule run_events_frame(2))
next
  assume "running p \<and> start_time p = None"
    and c: "consensus_time (run_events render tbl es (prepare tbl now p)) = Some c"
  then have "start_time (prepare tbl now p) = Some now"
    by (simp add: prepare_frame(2))
  then have "start_time (run_events render tbl es (prepare tbl now p)) = Some now"
    by (rule run_events_frame(2))
  then show "\<exists>r n. simulate_paxos_result (run_events render tbl es (prepare tbl now p)) net =
                      Inr ((timeout_limit, True, Some (c - now), r, n), stop net)"
    using c by (rule latency_from_start_time)
qed

text \<open>
  Both runs of two rounds: started by the driver (write at 0, consensus at 8) and
  started by a bare \<open>prepare\<close> at 0 (consensus at 7).
\<close>

theorem start_time_kept_once_set_witness:
  "start_time (set_start_time 0 (set_proposal ''v'' (new_proposer ''P0'' 2))) = Some 0
   \<and> start_time (prepare three_nodes 1
                   (set_start_time 0 (set_proposal ''v'' (new_proposer ''P0'' 2)))) = Some 0
   \<and> start_time driver_run_proposer = Some 0
   \<and> consensus_time driver_run_proposer = Some 8
   \<and> (\<exists>r n. simulate_paxos_result driver_run_proposer (new_network (0, 0) 0) =
              Inr ((timeout_limit, True, Some (8 - 0), r, n), stop (new_network (0, 0) 0)))
   \<and> running (set_proposal ''v'' (new_proposer ''P0'' 2))
   \<and> start_time (set_proposal ''v'' (new_proposer ''P0'' 2)) = None
   \<and> start_time (prepare three_nodes 0 (set_proposal ''v'' (new_proposer ''P0'' 2))) = Some 0
   \<and> start_time decided_proposer = Some 0
   \<and> consensus_time decided_proposer = Some 7
   \<and> (\<exists>r n. simulate_paxos_result decided_proposer (new_network (0, 0) 0) =
              Inr ((timeout_limit, True, Some (7 - 0), r, n), stop (new_network (0, 0) 0)))"
proof -
  have r: "running (set_proposal ''v'' (new_proposer ''P0'' 2))"
    and s: "start_time (set_proposal ''v'' (new_proposer ''P0'' 2)) = None"
    by (simp_all add: set_proposal_def new_proposer_def)
  have d: "start_time (driver_start three_nodes ''v'' 0 1 (new_proposer ''P0'' 2)) = Some 0"
    by (rule driver_start_fields(3))
  have a: "start_time (prepare three_nodes 1
                   (set_start_time 0 (set_proposal ''v'' (new_proposer ''P0'' 2)))) = Some 0"
    using start_time_kept_once_set
            [where tbl = three_nodes and now = 1
               and p = "set_start_time 0 (set_proposal ''v'' (new_proposer ''P0'' 2))"]
          driver_start_fields(2)
    by simp
  have b: "start_time driver_run_proposer = Some 0
     \<and> (\<exists>r n. simulate_paxos_result driver_run_proposer (new_network (0, 0) 0) =
              Inr ((timeout_limit, True, Some (8 - 0), r, n), stop (new_network (0, 0) 0)))"
    using start_time_kept_once_set
            [where p = "driver_start three_nodes ''v'' 0 1 (new_proposer ''P0'' 2)"
               and s = 0 and render = namedtuple_str and tbl = three_nodes
               and es = "[Ev_Promise_Timeout 5 (2, ''P0''),
        Ev_Message 6 (mk_message ''promise'' ''A0'' ''P0'' (4, ''P0'') None None),
        Ev_Message 6 (mk_message ''promise'' ''A1'' ''P0'' (4, ''P0'') None None),
        Ev_Message 7 (mk_message ''accepted'' ''A0'' ''P0'' (4, ''P0'') None (Some ''v'')),
        Ev_Message 8 (mk_message ''accepted'' ''A1'' ''P0'' (4, ''P0'') None (Some ''v''))]"
               and c = 8 and net = "new_network (0, 0) 0", folded driver_run_proposer_def]
          d driver_run_proposer_fields(1)
    by simp
  have e: "start_time (prepare three_nodes 0 (set_proposal ''v'' (new_proposer ''P0'' 2))) = Some 0
     \<and> start_time decided_proposer = Some 0
     \<and> (\<exists>r n. simulate_paxos_result decided_proposer (new_network (0, 0) 0) =
              Inr ((timeout_limit, True, Some (7 - 0), r, n), stop (new_network (0, 0) 0)))"
    using start_time_kept_once_set
            [where p = "set_proposal ''v'' (new_proposer ''P0'' 2)" and now = 0
               and render = namedtuple_str and tbl = three_nodes
               and es = "[Ev_Promise_Timeout 4 (2, ''P0''),
        Ev_Message 5 (mk_message ''promise'' ''A0'' ''P0'' (4, ''P0'') None None),
        Ev_Message 5 (mk_message ''promise'' ''A1'' ''P0'' (4, ''P0'') None None),
        Ev_Message 6 (mk_message ''accepted'' ''A0'' ''P0'' (4, ''P0'') None (Some ''v'')),
        Ev_Message 7 (mk_message ''accepted'' ''A1'' ''P0'' (4, ''P0'') None (Some ''v''))]"
               and c = 7 and net = "new_network (0, 0) 0", folded decided_proposer_def]
          r s decided_proposer_fields(1)
    by simp
  show ?thesis
    using a b e r s driver_start_fields(2) driver_run_proposer_fields(1)
      decided_proposer_fields(1)
    by blast
qed

section \<open>Promises\<close>










section \<open>Retries of the network\<close>

lemma dropped_once_fields:
  "net_running dropped_once" "failure_rate dropped_once = 1 / 2"
  "active_messages dropped_once = {message_token namedtuple_str prepare_to_A0 0}"
  "message_count dropped_once = 1" "dropped_messages dropped_once = 1"
  "total_retries dropped_once = 0"
  "scheduled dropped_once =
     [Retry_Timer (1 / 2) (message_token namedtuple_str prepare_to_A0 0) ''P0'' ''A0''
        (prepare_to_A0\<lparr>dropped := True\<rparr>) 1]"
  by (simp_all add: dropped_once_def send_message_def lossy_network_def register_node_def
        new_network_def Let_def prepare_to_A0_def mk_message_def)




section \<open>What the driver returns\<close>

lemma decided_start_time: "start_time decided_proposer = Some 0"
proof -
  have "start_time (prepare three_nodes 0 (set_proposal ''v'' (new_proposer ''P0'' 2))) = Some 0"
    by (simp add: prepare_frame set_proposal_def new_proposer_def)
  then show ?thesis
    unfolding decided_proposer_def by (rule run_events_frame(2))
qed

text \<open>
  C8, as stated, fails: \<open>simulate_paxos\<close> returns five values, the timeout limit 30.0
  where the claim has a timed-out status, and neither the number of messages sent nor the
  number dropped. For the same decided proposer, a network that has sent and dropped one
  message and a network that has sent none give the same tuple.
\<close>

theorem returned_tuple_counterexample:
  "message_count dropped_once = 1 \<and> dropped_messages dropped_once = 1
   \<and> message_count lossy_network = 0 \<and> dropped_messages lossy_network = 0
   \<and> map_sum id fst (simulate_paxos_result decided_proposer dropped_once)
       = Inr (30, True, Some 7, 2, 0)
   \<and> map_sum id fst (simulate_paxos_result decided_proposer lossy_network)
       = Inr (30, True, Some 7, 2, 0)"
  using dropped_once_fields decided_proposer_fields decided_start_time
  by (simp add: simulate_paxos_result_def timeout_limit_def stop_def lossy_network_def
        register_node_def new_network_def)

text \<open>
  C8, amended. The driver leaves its wait loop at the first poll at which a consensus
  time is set or 30 seconds have passed since the start of the wait; it then stops the
  network (\<open>running\<close> cleared, active tokens cleared) and returns the timeout limit
  30.0, whether a decision was reached, the latency (consensus time minus start time,
  \<open>None\<close> without decision), the round count and the network's retry count.
\<close>

theorem simulate_paxos_returns:
  "start_time p = Some s \<Longrightarrow>
     simulate_paxos_end start ((now, p) # polls) net =
       (if consensus_time p = None \<and> now - start < 30
        then simulate_paxos_end start polls net
        else Some (Inr ((30, consensus_time p \<noteq> None,
                         map_option (\<lambda>c. c - s) (consensus_time p), rounds p,
                         total_retries net),
                        net\<lparr>net_running := False, active_messages := {}\<rparr>)))"
  by (auto simp: simulate_paxos_end_def simulate_paxos_result_def wait_continues_def
        timeout_limit_def stop_def split: option.splits)

theorem simulate_paxos_returns_witness:
  "start_time decided_proposer = Some 0
   \<and> simulate_paxos_end 0 [(71 / 10, decided_proposer)] dropped_once =
       Some (Inr ((30, True, Some 7, 2, 0),
                  dropped_once\<lparr>net_running := False, active_messages := {}\<rparr>))"
  using simulate_paxos_returns[OF decided_start_time, of 0 "71 / 10" "[]" dropped_once]
    decided_start_time decided_proposer_fields dropped_once_fields
  by simp

end
